theory Spec2Isabelle
  imports Complex_Main
begin

section \<open>Voice-activity segmentation loop of transcribe.cpp\<close>

text \<open>
  The program polls an audio source, asks a voice-activity detector (VAD) for a verdict on
  the trailing part of the captured window, accumulates the samples of one utterance in a
  segment buffer, and hands the segment to whisper when the verdict falls back to silence.

  Conventions of the embedding:
  \<^item> a \<open>std::vector<float>\<close> is a list of samples; samples are only copied, never computed
    with, and the probabilities of the detector are only compared, so both are \<open>real\<close>
    (a NaN, which compares false with everything, is outside the model);
  \<^item> the collaborators behind the headers (the VAD model, whisper, the audio device) are
    functions handed to the code, and every call the code makes to one is appended to a
    log, so that "is not invoked" is a statement about the log;
  \<^item> text printed on \<open>stderr\<close> (usage, diagnostics of the verbose mode), the logging
    callback and the sleep of the cadence control are not part of the model;
  \<^item> memory is taken to suffice: \<open>std::bad_alloc\<close> is outside the model;
  \<^item> a run of the loop is given by the finite list of the iterations made before
    \<open>sdl_poll_events\<close> reports the request to quit; a process that is never asked to quit
    has no last iteration and \<open>main\<close> does not return.
\<close>

subsection \<open>The VAD decision: \<open>detect_voice_activity\<close>\<close>

type_synonym sample = real
type_synonym pcmf32 = "sample list"

text \<open>
  What a \<open>whisper_vad_context\<close> answers for one window: the result of
  \<open>whisper_vad_detect_speech\<close>, of \<open>whisper_vad_n_probs\<close>, and of \<open>whisper_vad_probs\<close>
  (a pointer: \<open>None\<close> is \<open>nullptr\<close>, \<open>Some p\<close> gives \<open>probs[i]\<close> as \<open>p i\<close>).
\<close>

record vad_reply =
  detect_speech :: bool
  n_probs :: int
  probs :: "(nat \<Rightarrow> real) option"

type_synonym whisper_vad_context = "pcmf32 \<Rightarrow> vad_reply"

text \<open>
  \<open>std::max_element(probs, probs + n)\<close>, as the index it returns: the first position
  holding the largest value (the scan keeps \<open>largest\<close> and replaces it when
  \<open>*largest < *first\<close>). For \<open>n = 0\<close> the result is \<open>last\<close>; the caller excludes it.
\<close>

definition max_element :: "(nat \<Rightarrow> real) \<Rightarrow> nat \<Rightarrow> nat" where
  "max_element p n = fold (\<lambda>i largest. if p largest < p i then i else largest) [1..<n] 0"

text \<open>
  The verdict, and the windows handed to the detector by this call (none or one).
\<close>

definition detect_voice_activity ::
  "whisper_vad_context option \<Rightarrow> pcmf32 \<Rightarrow> real \<Rightarrow> bool \<times> pcmf32 list" where
  "detect_voice_activity vad_ctx audio_samples vad_threshold =
     (if vad_ctx = None \<or> audio_samples = [] then (False, [])
      else
        let r = the vad_ctx audio_samples in
        if \<not> detect_speech r then (False, [audio_samples])
        else if n_probs r \<le> 0 \<or> probs r = None then (False, [audio_samples])
        else
          let max_prob = the (probs r) (max_element (the (probs r)) (nat (n_probs r)));
              voice_detected = (max_prob > vad_threshold)
          in (voice_detected, [audio_samples]))"

subsection \<open>Parameters and what the headers provide\<close>

text \<open>The struct \<open>whisper_params\<close>, field by field (32-bit integers as \<open>int\<close>).\<close>

record whisper_params =
  n_threads :: int
  capture_id :: int
  max_tokens :: int
  audio_ctx :: int
  audio_buffer_ms :: int
  silence_ms :: int
  min_step_ms :: int
  beam_size :: int
  vad_thold :: real
  no_fallback :: bool
  use_gpu :: bool
  flash_attn :: bool
  verbose :: bool
  list_devices :: bool
  whisper_log_level :: int
  language :: string
  model :: string
  vad_model :: string

text \<open>
  The default member initialisers of \<open>whisper_params\<close>, for a machine on which
  \<open>std::thread::hardware_concurrency()\<close> returns \<open>hc\<close>.
\<close>

definition default_params :: "nat \<Rightarrow> whisper_params" where
  "default_params hc =
     \<lparr>n_threads = min 4 (int hc), capture_id = -1, max_tokens = 128, audio_ctx = 0,
      audio_buffer_ms = 2000, silence_ms = 500, min_step_ms = 500, beam_size = 5,
      vad_thold = 0.5, no_fallback = True, use_gpu = True, flash_attn = False,
      verbose = False, list_devices = False, whisper_log_level = 4,
      language = ''en'', model = ''models/ggml-base.en.bin'',
      vad_model = ''models/ggml-silero-v5.1.2.bin''\<rparr>"

text \<open>
  Two names come from headers that are not part of the source file and stay parameters:
  the macro \<open>WHISPER_SAMPLE_RATE\<close> of whisper.h (samples per second) and the function
  \<open>::trim\<close> of common.h.
\<close>

record headers =
  WHISPER_SAMPLE_RATE :: nat
  trim :: "string \<Rightarrow> string"

subsection \<open>Transcribing a segment: \<open>transcribe_audio_segment\<close>\<close>

text \<open>
  What a \<open>whisper_context\<close> answers for one segment: the return value of \<open>whisper_full\<close>,
  of \<open>whisper_full_n_segments\<close>, and of \<open>whisper_full_get_segment_text(ctx, i)\<close> (a C
  string, \<open>None\<close> for a null pointer). The parameters handed to \<open>whisper_full\<close>
  (sampling strategy, language, threads) are not modelled: the answer is any function of
  the samples.
\<close>

record whisper_reply =
  full_result :: int
  n_segments :: int
  segment_text :: "nat \<Rightarrow> string option"

type_synonym whisper_context = "pcmf32 \<Rightarrow> whisper_reply"

text \<open>The loop over the segments that builds \<open>full_text\<close>.\<close>

definition full_text :: "whisper_reply \<Rightarrow> string" where
  "full_text r =
     fold (\<lambda>i acc. case segment_text r i of
                       None \<Rightarrow> acc
                     | Some t \<Rightarrow> if length t > 0 then acc @ t else acc)
          [0..<nat (n_segments r)] []"

text \<open>The transcribed text, and the segments handed to \<open>whisper_full\<close> (none or one).\<close>

definition transcribe_audio_segment ::
  "headers \<Rightarrow> whisper_context \<Rightarrow> pcmf32 \<Rightarrow> string \<times> pcmf32 list" where
  "transcribe_audio_segment hdr ctx pcmf32_segment =
     (if pcmf32_segment = [] then ([], [])
      else
        let r = ctx pcmf32_segment in
        if full_result r = 0 then (trim hdr (full_text r), [pcmf32_segment])
        else ([], [pcmf32_segment]))"

subsection \<open>One iteration of the main loop\<close>

text \<open>
  Standard output as the sequence of calls made on it: \<open>Printf l\<close> is
  \<open>printf("%s\n", text)\<close> with \<open>l\<close> the bytes written (the text and the newline),
  \<open>Fflush\<close> is \<open>fflush(stdout)\<close>.
\<close>

datatype out_event = Printf string | Fflush

text \<open>
  The variables the loop carries from one iteration to the next (\<open>in_speech\<close> and
  \<open>pcmf32_segment\<close>), with the logs of what the loop did to its collaborators. The
  buffer \<open>pcmf32_vad\<close> is overwritten in full before each use and is a local value here.
\<close>

record session =
  in_speech :: bool
  pcmf32_segment :: pcmf32
  vad_calls :: "pcmf32 list"
  whisper_calls :: "pcmf32 list"
  stdout :: "out_event list"

text \<open>
  What one iteration reads from outside: the window \<open>audio.get\<close> left in
  \<open>pcmf32_buffer\<close>, the milliseconds between the two clock readings (a signed 64-bit
  count), and how the two models answer during this iteration.
\<close>

record tick_input =
  pcmf32_buffer :: pcmf32
  elapsed_time_ms :: int
  vad_ctx_now :: whisper_vad_context
  ctx_now :: whisper_context

text \<open>The range \<open>[v.end() - k, v.end())\<close> for \<open>k \<le> v.size()\<close>.\<close>

definition last_samples :: "nat \<Rightarrow> pcmf32 \<Rightarrow> pcmf32" where
  "last_samples k v = drop (length v - k) v"

text \<open>
  C++ integer division truncates towards zero; the conversion of a signed 64-bit value to
  \<open>size_t\<close> is modulo \<open>2 ^ 64\<close>.
\<close>

definition c_div :: "int \<Rightarrow> int \<Rightarrow> int" where
  "c_div a b = sgn a * sgn b * (\<bar>a\<bar> div \<bar>b\<bar>)"

definition to_size_t :: "int \<Rightarrow> nat" where
  "to_size_t x = nat (x mod 2 ^ 64)"

text \<open>
  \<open>size_t new_samples = (elapsed_time_ms * WHISPER_SAMPLE_RATE) / 1000\<close>. The product is
  taken on unbounded integers: it leaves the 64-bit range only for an elapsed time of
  thousands of years.
\<close>

definition new_samples_of :: "headers \<Rightarrow> int \<Rightarrow> nat" where
  "new_samples_of hdr elapsed =
     to_size_t (c_div (elapsed * int (WHISPER_SAMPLE_RATE hdr)) 1000)"

text \<open>
  The verdict of the iteration: the detector is asked only when the window holds at least
  \<open>n_samples_vad\<close> samples, on a copy of its last \<open>n_samples_vad\<close> samples; otherwise
  \<open>voice_detected\<close> keeps its initial value \<open>false\<close>.
\<close>

definition fetch_verdict ::
  "whisper_params \<Rightarrow> nat \<Rightarrow> tick_input \<Rightarrow> bool \<times> pcmf32 list" where
  "fetch_verdict params n_samples_vad t =
     (if length (pcmf32_buffer t) \<ge> n_samples_vad
      then detect_voice_activity (Some (vad_ctx_now t))
             (last_samples n_samples_vad (pcmf32_buffer t)) (vad_thold params)
      else (False, []))"

text \<open>\<open>if (in_speech) { ... }\<close>: accumulate the new tail of the window.\<close>

definition accumulate :: "headers \<Rightarrow> tick_input \<Rightarrow> session \<Rightarrow> session" where
  "accumulate hdr t s =
     (if in_speech s then
        let new_samples = min (new_samples_of hdr (elapsed_time_ms t)) (length (pcmf32_buffer t)) in
        if new_samples > 0
        then s\<lparr>pcmf32_segment := pcmf32_segment s @ last_samples new_samples (pcmf32_buffer t)\<rparr>
        else s
      else s)"

text \<open>\<open>if (voice_detected && !in_speech) { ... }\<close>: start of a new speech segment.\<close>

definition start_segment :: "nat \<Rightarrow> tick_input \<Rightarrow> bool \<Rightarrow> session \<Rightarrow> session" where
  "start_segment n_samples_vad t voice_detected s =
     (if voice_detected \<and> \<not> in_speech s
      then s\<lparr>in_speech := True,
             pcmf32_segment := [] @ last_samples n_samples_vad (pcmf32_buffer t)\<rparr>
      else s)"

text \<open>\<open>if (!voice_detected && in_speech) { ... }\<close>: end of the segment, transcribe and print.\<close>

definition end_segment :: "headers \<Rightarrow> tick_input \<Rightarrow> bool \<Rightarrow> session \<Rightarrow> session" where
  "end_segment hdr t voice_detected s =
     (if \<not> voice_detected \<and> in_speech s then
        let (transcribed_text, calls) = transcribe_audio_segment hdr (ctx_now t) (pcmf32_segment s) in
        s\<lparr>in_speech := False,
          pcmf32_segment := [],
          whisper_calls := whisper_calls s @ calls,
          stdout := stdout s @
            (if transcribed_text \<noteq> [] then [Printf (transcribed_text @ [CHR 0x0A]), Fflush] else [])\<rparr>
      else s)"

text \<open>The three blocks after the verdict, in the order of the source.\<close>

definition step :: "headers \<Rightarrow> nat \<Rightarrow> tick_input \<Rightarrow> bool \<Rightarrow> session \<Rightarrow> session" where
  "step hdr n_samples_vad t voice_detected s =
     end_segment hdr t voice_detected
       (start_segment n_samples_vad t voice_detected (accumulate hdr t s))"

definition tick :: "headers \<Rightarrow> whisper_params \<Rightarrow> nat \<Rightarrow> session \<Rightarrow> tick_input \<Rightarrow> session" where
  "tick hdr params n_samples_vad s t =
     (let (voice_detected, calls) = fetch_verdict params n_samples_vad t
      in step hdr n_samples_vad t voice_detected (s\<lparr>vad_calls := vad_calls s @ calls\<rparr>))"

text \<open>
  The loop \<open>while (true) { if (!sdl_poll_events()) break; ... }\<close>, run on the iterations
  for which \<open>sdl_poll_events\<close> answered true; at the end of the list it answers false and
  the loop is left, with nothing done to the segment.
\<close>

fun main_loop :: "headers \<Rightarrow> whisper_params \<Rightarrow> nat \<Rightarrow> session \<Rightarrow> tick_input list \<Rightarrow> session" where
  "main_loop hdr params n_samples_vad s [] = s"
| "main_loop hdr params n_samples_vad s (t # ts) =
     main_loop hdr params n_samples_vad (tick hdr params n_samples_vad s t) ts"

text \<open>The variables as \<open>main\<close> initialises them before the loop.\<close>

definition initial_session :: session where
  "initial_session =
     \<lparr>in_speech = False, pcmf32_segment = [], vad_calls = [], whisper_calls = [], stdout = []\<rparr>"

subsection \<open>The command line: \<open>whisper_params_parse\<close>\<close>

text \<open>
  What the parser takes from outside the source file: \<open>std::stoi\<close> and \<open>std::stof\<close>
  (\<open>None\<close> when the conversion throws \<open>std::invalid_argument\<close> or
  \<open>std::out_of_range\<close>), \<open>whisper_lang_id\<close> of whisper.h, and
  \<open>std::thread::hardware_concurrency()\<close>.
\<close>

record library =
  stoi :: "string \<Rightarrow> int option"
  stof :: "string \<Rightarrow> real option"
  whisper_lang_id :: "string \<Rightarrow> int"
  hardware_concurrency :: nat

text \<open>
  How a piece of code ends: it runs to its end with a result, it calls \<open>exit\<close>, an
  exception leaves it (nothing in the program catches one), or it uses \<open>argv[argc]\<close>,
  the null pointer that ends \<open>argv\<close>, as a string (undefined behaviour).
\<close>

datatype 'a outcome = Done 'a | Exit_called int | Threw | Null_argument

text \<open>
  The three shapes of an option with an operand, \<open>params.x = std::stoi(argv[++i])\<close>,
  \<open>params.x = std::stof(argv[++i])\<close> and \<open>params.x = argv[++i]\<close>: \<open>next_arg\<close> is
  \<open>argv[i + 1]\<close>, \<open>None\<close> at the end of \<open>argv\<close>. The result says whether \<open>i\<close> was
  advanced.
\<close>

definition int_operand ::
  "library \<Rightarrow> string option \<Rightarrow> (int \<Rightarrow> whisper_params) \<Rightarrow> (whisper_params \<times> bool) outcome" where
  "int_operand lib next_arg upd =
     (case next_arg of
        None \<Rightarrow> Null_argument
      | Some v \<Rightarrow> (case stoi lib v of None \<Rightarrow> Threw | Some k \<Rightarrow> Done (upd k, True)))"

definition float_operand ::
  "library \<Rightarrow> string option \<Rightarrow> (real \<Rightarrow> whisper_params) \<Rightarrow> (whisper_params \<times> bool) outcome" where
  "float_operand lib next_arg upd =
     (case next_arg of
        None \<Rightarrow> Null_argument
      | Some v \<Rightarrow> (case stof lib v of None \<Rightarrow> Threw | Some x \<Rightarrow> Done (upd x, True)))"

definition string_operand ::
  "string option \<Rightarrow> (string \<Rightarrow> whisper_params) \<Rightarrow> (whisper_params \<times> bool) outcome" where
  "string_operand next_arg upd =
     (case next_arg of None \<Rightarrow> Null_argument | Some v \<Rightarrow> Done (upd v, True))"

text \<open>The body of the \<open>for\<close> loop: the chain of comparisons on \<open>arg\<close>, in its order.\<close>

definition parse_arg ::
  "library \<Rightarrow> string \<Rightarrow> string option \<Rightarrow> whisper_params \<Rightarrow> (whisper_params \<times> bool) outcome" where
  "parse_arg lib arg next_arg params =
     (if arg = ''-h'' \<or> arg = ''--help'' then Exit_called 0
      else if arg = ''-t'' \<or> arg = ''--threads''
        then int_operand lib next_arg (\<lambda>k. params\<lparr>n_threads := k\<rparr>)
      else if arg = ''-l'' \<or> arg = ''--language''
        then string_operand next_arg (\<lambda>v. params\<lparr>language := v\<rparr>)
      else if arg = ''-m'' \<or> arg = ''--model''
        then string_operand next_arg (\<lambda>v. params\<lparr>model := v\<rparr>)
      else if arg = ''--vad-model''
        then string_operand next_arg (\<lambda>v. params\<lparr>vad_model := v\<rparr>)
      else if arg = ''-c'' \<or> arg = ''--capture''
        then int_operand lib next_arg (\<lambda>k. params\<lparr>capture_id := k\<rparr>)
      else if arg = ''--audio-buffer''
        then int_operand lib next_arg (\<lambda>k. params\<lparr>audio_buffer_ms := k\<rparr>)
      else if arg = ''--silence''
        then int_operand lib next_arg (\<lambda>k. params\<lparr>silence_ms := k\<rparr>)
      else if arg = ''--min-step''
        then int_operand lib next_arg (\<lambda>k. params\<lparr>min_step_ms := k\<rparr>)
      else if arg = ''--beam-size''
        then int_operand lib next_arg (\<lambda>k. params\<lparr>beam_size := k\<rparr>)
      else if arg = ''-vth'' \<or> arg = ''--vad-thold''
        then float_operand lib next_arg (\<lambda>x. params\<lparr>vad_thold := x\<rparr>)
      else if arg = ''--no-gpu'' then Done (params\<lparr>use_gpu := False\<rparr>, False)
      else if arg = ''-fa'' \<or> arg = ''--flash-attn'' then Done (params\<lparr>flash_attn := True\<rparr>, False)
      else if arg = ''-v'' \<or> arg = ''--verbose'' then Done (params\<lparr>verbose := True\<rparr>, False)
      else if arg = ''--list-devices'' then Done (params\<lparr>list_devices := True\<rparr>, False)
      else if arg = ''--whisper-log-level''
        then int_operand lib next_arg (\<lambda>k. params\<lparr>whisper_log_level := k\<rparr>)
      else Exit_called 1)"

text \<open>
  The loop \<open>for (int i = 1; i < argc; i++)\<close>, on the arguments from \<open>argv[i]\<close> on.
\<close>

function params_loop :: "library \<Rightarrow> string list \<Rightarrow> whisper_params \<Rightarrow> whisper_params outcome" where
  "params_loop lib [] params = Done params"
| "params_loop lib (arg # rest) params =
     (case parse_arg lib arg (case rest of [] \<Rightarrow> None | v # _ \<Rightarrow> Some v) params of
        Done (params', advanced) \<Rightarrow> params_loop lib (if advanced then tl rest else rest) params'
      | Exit_called c \<Rightarrow> Exit_called c
      | Threw \<Rightarrow> Threw
      | Null_argument \<Rightarrow> Null_argument)"
  by pat_completeness auto
termination
  by (relation "measure (\<lambda>(lib, args, params). length args)") auto

text \<open>
  The whole function: the loop, the clamping of four parameters, and the check of the
  language, which is the one place where it returns false.
\<close>

definition whisper_params_parse ::
  "library \<Rightarrow> string list \<Rightarrow> whisper_params \<Rightarrow> (bool \<times> whisper_params) outcome" where
  "whisper_params_parse lib argv params =
     (case params_loop lib (tl argv) params of
        Done p \<Rightarrow>
          let p = p\<lparr>audio_buffer_ms := max (audio_buffer_ms p) 1000,
                    silence_ms := max (silence_ms p) 500,
                    min_step_ms := max (min_step_ms p) 100,
                    whisper_log_level := max 0 (min (whisper_log_level p) 5)\<rparr>
          in if language p \<noteq> ''auto'' \<and> whisper_lang_id lib (language p) = - 1
             then Done (False, p)
             else Done (True, p)
      | Exit_called c \<Rightarrow> Exit_called c
      | Threw \<Rightarrow> Threw
      | Null_argument \<Rightarrow> Null_argument)"

subsection \<open>Startup and exit: \<open>main\<close>\<close>

text \<open>
  Whether each collaborator can be initialised for the given parameters:
  \<open>whisper_init_from_file_with_params\<close> and \<open>whisper_vad_init_from_file_with_params\<close>
  return a context and not \<open>nullptr\<close>, \<open>audio.init\<close> returns true.
\<close>

record startup =
  whisper_init_ok :: "whisper_params \<Rightarrow> bool"
  vad_init_ok :: "whisper_params \<Rightarrow> bool"
  audio_init_ok :: "whisper_params \<Rightarrow> bool"

text \<open>The initialisation calls \<open>main\<close> makes, for its log.\<close>

datatype init_call = Whisper_init | Vad_init | Audio_init

text \<open>
  The product of two \<open>int\<close>s as the source computes it, in 32 bits: \<open>None\<close> when the
  result is not a 32-bit value (signed overflow, undefined behaviour).
\<close>

definition int32_mul :: "int \<Rightarrow> int \<Rightarrow> int option" where
  "int32_mul a b = (if - (2 ^ 31) \<le> a * b \<and> a * b < 2 ^ 31 then Some (a * b) else None)"

text \<open>\<open>(ms * WHISPER_SAMPLE_RATE) / 1000\<close>, the number of samples in \<open>ms\<close> milliseconds.\<close>

definition n_samples_of :: "headers \<Rightarrow> int \<Rightarrow> int option" where
  "n_samples_of hdr ms =
     (case int32_mul ms (int (WHISPER_SAMPLE_RATE hdr)) of
        None \<Rightarrow> None
      | Some p \<Rightarrow> Some (c_div p 1000))"

text \<open>
  How the process ends: with an exit code (\<open>return\<close> from \<open>main\<close>, or \<open>exit\<close>), by
  \<open>std::terminate\<close> after an exception nobody caught (no exit code of the program's
  choosing), or undefined.
\<close>

datatype process_end = Exit_code int | Terminated | Undefined

text \<open>
  The audio buffer allocation of \<open>main\<close>: \<open>n_samples_buffer\<close>, the vector
  \<open>pcmf32_buffer(n_samples_buffer, 0.0f)\<close>, \<open>n_samples_vad\<close>, the vector
  \<open>pcmf32_vad(n_samples_vad, 0.0f)\<close>, in this order. The constructor takes the count as
  a \<open>size_t\<close> and throws \<open>std::length_error\<close> for a negative \<open>int\<close>. The result is how
  the process ends here (\<open>Inl\<close>), or the size of the VAD window (\<open>Inr\<close>).
\<close>

definition loop_buffers :: "headers \<Rightarrow> whisper_params \<Rightarrow> process_end + nat" where
  "loop_buffers hdr params =
     (case n_samples_of hdr (audio_buffer_ms params) of
        None \<Rightarrow> Inl Undefined
      | Some n_samples_buffer \<Rightarrow>
          if n_samples_buffer < 0 then Inl Terminated
          else
            (case n_samples_of hdr (silence_ms params) of
               None \<Rightarrow> Inl Undefined
             | Some n_samples_vad \<Rightarrow>
                 if n_samples_vad < 0 then Inl Terminated else Inr (nat n_samples_vad)))"

text \<open>
  \<open>main\<close>: how the process ends, the initialisation calls made, and the variables of the
  loop when it is left (as initialised, when the loop was never entered). The list
  \<open>ticks\<close> holds the iterations the loop runs before \<open>sdl_poll_events\<close> answers false.
  The device list that \<open>list_audio_devices\<close> prints is not part of the model.
\<close>

definition main ::
  "library \<Rightarrow> headers \<Rightarrow> startup \<Rightarrow> string list \<Rightarrow> tick_input list
     \<Rightarrow> process_end \<times> init_call list \<times> session" where
  "main lib hdr env argv ticks =
     (case whisper_params_parse lib argv (default_params (hardware_concurrency lib)) of
        Exit_called c \<Rightarrow> (Exit_code c, [], initial_session)
      | Threw \<Rightarrow> (Terminated, [], initial_session)
      | Null_argument \<Rightarrow> (Undefined, [], initial_session)
      | Done (ok, params) \<Rightarrow>
          if \<not> ok then (Exit_code 1, [], initial_session)
          else if list_devices params then (Exit_code 0, [], initial_session)
          else if \<not> whisper_init_ok env params
            then (Exit_code 2, [Whisper_init], initial_session)
          else if \<not> vad_init_ok env params
            then (Exit_code 3, [Whisper_init, Vad_init], initial_session)
          else
            (case loop_buffers hdr params of
               Inl e \<Rightarrow> (e, [Whisper_init, Vad_init], initial_session)
             | Inr n_samples_vad \<Rightarrow>
                 if \<not> audio_init_ok env params
                   then (Exit_code 1, [Whisper_init, Vad_init, Audio_init], initial_session)
                 else (Exit_code 0, [Whisper_init, Vad_init, Audio_init],
                       main_loop hdr params n_samples_vad initial_session ticks)))"

subsection \<open>Notions used to state the properties\<close>

text \<open>
  The number of samples the claim about accumulation speaks of: the elapsed-time-derived
  count, capped at the length of the window. It is compared below with what
  \<open>accumulate\<close> appends.
\<close>

definition capped_count :: "headers \<Rightarrow> tick_input \<Rightarrow> nat" where
  "capped_count hdr t = min (new_samples_of hdr (elapsed_time_ms t)) (length (pcmf32_buffer t))"


text \<open>What the loop prints for one completed utterance.\<close>

definition emitted :: "string \<Rightarrow> out_event list" where
  "emitted transcribed_text =
     (if transcribed_text = [] then [] else [Printf (transcribed_text @ [CHR 0x0A]), Fflush])"

text \<open>The invariant that ties the segment buffer to the state.\<close>

definition silence_has_empty_segment :: "session \<Rightarrow> bool" where
  "silence_has_empty_segment s = (in_speech s \<or> pcmf32_segment s = [])"

subsection \<open>Concrete collaborators for the examples\<close>

text \<open>
  Modelled from the spec: the function \<open>::trim\<close> is declared in common.h and its body is
  not among the sources. The spec says the text is "trimmed of leading/trailing
  whitespace"; whitespace is taken to be the six characters of the C locale. It is used
  in the examples only: the properties below hold for every \<open>trim\<close>.
\<close>

definition is_space :: "char \<Rightarrow> bool" where
  "is_space c = (c \<in> set [CHR '' '', CHR 0x09, CHR 0x0A, CHR 0x0B, CHR 0x0C, CHR 0x0D])"

definition trim_spec :: "string \<Rightarrow> string" where
  "trim_spec s = rev (dropWhile is_space (rev (dropWhile is_space s)))"

text \<open>An instance of the headers: 16000 samples per second.\<close>

definition example_headers :: headers where
  "example_headers = \<lparr>WHISPER_SAMPLE_RATE = 16000, trim = trim_spec\<rparr>"

text \<open>A detector that succeeds with the given probabilities, and one that fails.\<close>

definition vad_says :: "real list \<Rightarrow> whisper_vad_context" where
  "vad_says ps = (\<lambda>w. \<lparr>detect_speech = True, n_probs = int (length ps), probs = Some ((!) ps)\<rparr>)"

definition vad_fails :: whisper_vad_context where
  "vad_fails = (\<lambda>w. \<lparr>detect_speech = False, n_probs = 0, probs = None\<rparr>)"

text \<open>A whisper that succeeds with one segment of the given text.\<close>

definition whisper_says :: "string \<Rightarrow> whisper_context" where
  "whisper_says txt = (\<lambda>seg. \<lparr>full_result = 0, n_segments = 1, segment_text = (\<lambda>i. Some txt)\<rparr>)"

text \<open>
  An iteration half a second after the previous one, on a full two-second window of
  samples of value \<open>x\<close>.
\<close>

definition example_tick :: "sample \<Rightarrow> whisper_vad_context \<Rightarrow> whisper_context \<Rightarrow> tick_input" where
  "example_tick x vad whisper =
     \<lparr>pcmf32_buffer = replicate 32000 x, elapsed_time_ms = 500,
      vad_ctx_now = vad, ctx_now = whisper\<rparr>"

text \<open>
  \<open>std::stoi\<close> as the C++ standard defines it, through \<open>strtol\<close> in base 10: leading
  whitespace is skipped, a sign is optional, the digits that follow are the value and the
  rest of the string is ignored; it throws \<open>std::invalid_argument\<close> when there is no
  digit and \<open>std::out_of_range\<close> when the value is not an \<open>int\<close>.
\<close>

definition is_digit :: "char \<Rightarrow> bool" where
  "is_digit c = (c \<in> set ''0123456789'')"

definition decimal :: "string \<Rightarrow> nat" where
  "decimal ds = foldl (\<lambda>acc c. 10 * acc + (of_char c - 48)) 0 ds"

definition stoi_model :: "string \<Rightarrow> int option" where
  "stoi_model s =
     (let s1 = dropWhile is_space s;
          negative = (s1 \<noteq> [] \<and> hd s1 = CHR ''-'');
          s2 = (if s1 \<noteq> [] \<and> (hd s1 = CHR ''-'' \<or> hd s1 = CHR ''+'') then tl s1 else s1);
          ds = takeWhile is_digit s2;
          v = (if negative then - int (decimal ds) else int (decimal ds))
      in if ds = [] then None
         else if v < - (2 ^ 31) \<or> 2 ^ 31 \<le> v then None
         else Some v)"

text \<open>A \<open>whisper_lang_id\<close> that knows five languages, and \<open>-1\<close> for any other.\<close>

definition example_lang_id :: "string \<Rightarrow> int" where
  "example_lang_id s =
     (if s = ''en'' then 0 else if s = ''zh'' then 1 else if s = ''de'' then 2
      else if s = ''es'' then 3 else if s = ''ru'' then 4 else - 1)"

text \<open>
  The library on a machine with eight hardware threads. \<open>std::stof\<close> is not modelled:
  the conversion is left unspecified here, so what is proved of the examples holds
  whatever it returns (no example has an option with a floating-point operand).
\<close>

definition example_library :: library where
  "example_library =
     \<lparr>stoi = stoi_model, stof = undefined, whisper_lang_id = example_lang_id,
      hardware_concurrency = 8\<rparr>"

text \<open>A startup in which each of the three initialisations succeeds or fails as given.\<close>

definition example_startup :: "bool \<Rightarrow> bool \<Rightarrow> bool \<Rightarrow> startup" where
  "example_startup w v a =
     \<lparr>whisper_init_ok = (\<lambda>p. w), vad_init_ok = (\<lambda>p. v), audio_init_ok = (\<lambda>p. a)\<rparr>"

text \<open>
  Iterations used in the examples, for the default parameters (a VAD window of 8000
  samples): one with a voice verdict, one with a silence verdict, one on which
  \<open>audio.get\<close> left the window empty; and the state after a first voice verdict.
\<close>

definition voice_tick :: tick_input where
  "voice_tick = example_tick 0 (vad_says [0.9]) (whisper_says '' hello world '')"

definition silence_tick :: tick_input where
  "silence_tick = example_tick 0 (vad_says [0.1]) (whisper_says '' hello world '')"

definition empty_window_tick :: tick_input where
  "empty_window_tick =
     \<lparr>pcmf32_buffer = [], elapsed_time_ms = 500,
      vad_ctx_now = vad_says [0.9], ctx_now = whisper_says '' hello world ''\<rparr>"

definition speech_session :: session where
  "speech_session =
     \<lparr>in_speech = True, pcmf32_segment = replicate 8000 0, vad_calls = [replicate 8000 0],
      whisper_calls = [], stdout = []\<rparr>"


text \<open>
  An iteration for which the second clock reading is one millisecond before the first
  (\<open>high_resolution_clock\<close> need not be steady), otherwise as \<open>voice_tick\<close>.
\<close>

definition clock_back_tick :: tick_input where
  "clock_back_tick = voice_tick\<lparr>elapsed_time_ms := - 1\<rparr>"

subsection \<open>Facts about the VAD decision\<close>

lemma max_element_Suc:
  "0 < n \<Longrightarrow> max_element p (Suc n) =
     (if p (max_element p n) < p n then n else max_element p n)"
  by (simp add: max_element_def)

lemma max_element_is_Max:
  "0 < n \<Longrightarrow> max_element p n < n \<and> p (max_element p n) = Max (p ` {..<n})"
proof (induction n)
  case 0
  then show ?case by simp
next
  case (Suc n)
  show ?case
  proof (cases "n = 0")
    case True
    then show ?thesis by (simp add: max_element_def lessThan_Suc)
  next
    case False
    then have pos: "0 < n" by simp
    have ih: "max_element p n < n" "p (max_element p n) = Max (p ` {..<n})"
      using Suc.IH [OF pos] by simp_all
    have ne: "p ` {..<n} \<noteq> {}" using pos by auto
    have img: "p ` {..<Suc n} = insert (p n) (p ` {..<n})"
      by (simp add: lessThan_Suc)
    have mx: "Max (p ` {..<Suc n}) = max (p n) (Max (p ` {..<n}))"
      unfolding img using ne by (simp add: Max_insert)
    show ?thesis
      using ih pos by (auto simp: max_element_Suc mx max_def)
  qed
qed

subsection \<open>Facts about one iteration\<close>

lemma last_samples_0 [simp]: "last_samples 0 v = []"
  by (simp add: last_samples_def)

lemma length_last_samples: "length (last_samples k v) = min k (length v)"
  by (simp add: last_samples_def)

lemma accumulate_speech:
  "in_speech s \<Longrightarrow> accumulate hdr t s =
     s\<lparr>pcmf32_segment := pcmf32_segment s @ last_samples (capped_count hdr t) (pcmf32_buffer t)\<rparr>"
  by (simp add: accumulate_def capped_count_def Let_def)

lemma accumulate_silence: "\<not> in_speech s \<Longrightarrow> accumulate hdr t s = s"
  by (simp add: accumulate_def)

lemma step_silence_in_silence: "\<not> in_speech s \<Longrightarrow> step hdr n t False s = s"
  by (simp add: step_def accumulate_def start_segment_def end_segment_def)

lemma step_voice_in_silence:
  "\<not> in_speech s \<Longrightarrow> step hdr n t True s =
     s\<lparr>in_speech := True, pcmf32_segment := last_samples n (pcmf32_buffer t)\<rparr>"
  by (simp add: step_def accumulate_def start_segment_def end_segment_def)

lemma step_voice_in_speech:
  "in_speech s \<Longrightarrow> step hdr n t True s =
     s\<lparr>pcmf32_segment := pcmf32_segment s @ last_samples (capped_count hdr t) (pcmf32_buffer t)\<rparr>"
  by (simp add: step_def accumulate_speech start_segment_def end_segment_def)

lemma step_in_speech:
  "in_speech s \<Longrightarrow> step hdr n t v s =
     end_segment hdr t v
       (s\<lparr>pcmf32_segment := pcmf32_segment s @ last_samples (capped_count hdr t) (pcmf32_buffer t)\<rparr>)"
  by (simp add: step_def accumulate_speech start_segment_def)

lemma step_silence_leaves_speech: "in_speech (step hdr n t False s) = False"
  by (simp add: step_def accumulate_def start_segment_def end_segment_def Let_def
      split: prod.splits)

lemma tick_step:
  "tick hdr params n s t =
     step hdr n t (fst (fetch_verdict params n t))
       (s\<lparr>vad_calls := vad_calls s @ snd (fetch_verdict params n t)\<rparr>)"
  by (simp add: tick_def split: prod.splits)

lemma fetch_verdict_short:
  "length (pcmf32_buffer t) < n \<Longrightarrow> fetch_verdict params n t = (False, [])"
  by (simp add: fetch_verdict_def)

lemma fetch_verdict_voice_length:
  "fst (fetch_verdict params n t) \<Longrightarrow> n \<le> length (pcmf32_buffer t)"
  by (auto simp: fetch_verdict_def split: if_splits)

lemma step_vad_calls: "vad_calls (step hdr n t v s) = vad_calls s"
  by (simp add: step_def accumulate_def start_segment_def end_segment_def Let_def
      split: prod.splits)

lemma tick_voice_in_speech:
  "in_speech s \<Longrightarrow> fst (fetch_verdict params n t) \<Longrightarrow>
   tick hdr params n s t =
     s\<lparr>vad_calls := vad_calls s @ snd (fetch_verdict params n t),
       pcmf32_segment := pcmf32_segment s @ last_samples (capped_count hdr t) (pcmf32_buffer t)\<rparr>"
  by (simp add: tick_step step_voice_in_speech)

lemma tick_voice_in_silence:
  "\<not> in_speech s \<Longrightarrow> fst (fetch_verdict params n t) \<Longrightarrow>
   tick hdr params n s t =
     s\<lparr>vad_calls := vad_calls s @ snd (fetch_verdict params n t),
       in_speech := True, pcmf32_segment := last_samples n (pcmf32_buffer t)\<rparr>"
  by (simp add: tick_step step_voice_in_silence)

lemma tick_silence_in_silence:
  "\<not> in_speech s \<Longrightarrow> \<not> fst (fetch_verdict params n t) \<Longrightarrow>
   tick hdr params n s t = s\<lparr>vad_calls := vad_calls s @ snd (fetch_verdict params n t)\<rparr>"
  by (simp add: tick_step step_silence_in_silence)

lemma tick_silence_in_speech:
  "in_speech s \<Longrightarrow> \<not> fst (fetch_verdict params n t) \<Longrightarrow>
   tick hdr params n s t =
     s\<lparr>vad_calls := vad_calls s @ snd (fetch_verdict params n t),
       in_speech := False, pcmf32_segment := [],
       whisper_calls := whisper_calls s @
         snd (transcribe_audio_segment hdr (ctx_now t) (pcmf32_segment (accumulate hdr t s))),
       stdout := stdout s @
         emitted (fst (transcribe_audio_segment hdr (ctx_now t) (pcmf32_segment (accumulate hdr t s))))\<rparr>"
  by (simp add: tick_step step_in_speech end_segment_def accumulate_speech emitted_def
      split: prod.splits)

lemma voice_run_from_speech:
  "in_speech s \<Longrightarrow> \<forall>t \<in> set ts. fst (fetch_verdict params n t) \<Longrightarrow>
   in_speech (main_loop hdr params n s ts)
   \<and> pcmf32_segment (main_loop hdr params n s ts) =
       pcmf32_segment s @ concat (map (\<lambda>t. last_samples (capped_count hdr t) (pcmf32_buffer t)) ts)
   \<and> whisper_calls (main_loop hdr params n s ts) = whisper_calls s
   \<and> stdout (main_loop hdr params n s ts) = stdout s"
proof (induction ts arbitrary: s)
  case Nil
  then show ?case by simp
next
  case (Cons t ts)
  have v: "fst (fetch_verdict params n t)" using Cons.prems(2) by simp
  let ?s' = "tick hdr params n s t"
  have s': "?s' = s\<lparr>vad_calls := vad_calls s @ snd (fetch_verdict params n t),
       pcmf32_segment := pcmf32_segment s @ last_samples (capped_count hdr t) (pcmf32_buffer t)\<rparr>"
    using Cons.prems(1) v by (rule tick_voice_in_speech)
  have sp: "in_speech ?s'" using Cons.prems(1) by (simp add: s')
  have rest: "\<forall>t \<in> set ts. fst (fetch_verdict params n t)" using Cons.prems(2) by simp
  show ?case
    using Cons.IH [OF sp rest] by (simp add: s')
qed

lemma capped_count_le: "capped_count hdr t \<le> length (pcmf32_buffer t)"
  by (simp add: capped_count_def)

lemma length_concat_tails:
  "length (concat (map (\<lambda>t. last_samples (capped_count hdr t) (pcmf32_buffer t)) ts))
     = sum_list (map (capped_count hdr) ts)"
  by (induction ts) (simp_all add: length_last_samples capped_count_le)

lemma c_div_nonneg: "0 \<le> a \<Longrightarrow> c_div a 1000 = a div 1000"
  by (cases "a = 0") (simp_all add: c_div_def)

lemma new_samples_of_nonneg:
  assumes "0 \<le> e" and "e * int (WHISPER_SAMPLE_RATE hdr) div 1000 < 2 ^ 64"
  shows "new_samples_of hdr e = nat (e * int (WHISPER_SAMPLE_RATE hdr) div 1000)"
proof -
  have p: "0 \<le> e * int (WHISPER_SAMPLE_RATE hdr)" using assms(1) by simp
  have c: "c_div (e * int (WHISPER_SAMPLE_RATE hdr)) 1000 = e * int (WHISPER_SAMPLE_RATE hdr) div 1000"
    using p by (rule c_div_nonneg)
  have q: "0 \<le> e * int (WHISPER_SAMPLE_RATE hdr) div 1000"
    using p by (simp add: pos_imp_zdiv_nonneg_iff)
  show ?thesis
    using q assms(2) by (simp add: new_samples_of_def to_size_t_def c)
qed


lemma tick_keeps_invariant:
  "silence_has_empty_segment s \<Longrightarrow> silence_has_empty_segment (tick hdr params n s t)"
  by (cases "in_speech s"; cases "fst (fetch_verdict params n t)")
    (simp_all add: silence_has_empty_segment_def tick_voice_in_speech tick_voice_in_silence
      tick_silence_in_speech tick_silence_in_silence)

lemma main_loop_keeps_invariant:
  "silence_has_empty_segment s \<Longrightarrow> silence_has_empty_segment (main_loop hdr params n s ts)"
  by (induction ts arbitrary: s) (simp_all add: tick_keeps_invariant)

lemma tick_segment_in_silence:
  "\<not> in_speech s \<Longrightarrow> \<not> in_speech (tick hdr params n s t) \<Longrightarrow>
   pcmf32_segment (tick hdr params n s t) = pcmf32_segment s"
  by (cases "fst (fetch_verdict params n t)")
    (simp_all add: tick_voice_in_silence tick_silence_in_silence)

lemma tick_clears_on_end:
  "in_speech s \<Longrightarrow> \<not> in_speech (tick hdr params n s t) \<Longrightarrow>
   pcmf32_segment (tick hdr params n s t) = []"
  by (cases "fst (fetch_verdict params n t)")
    (simp_all add: tick_voice_in_speech tick_silence_in_speech)








text \<open>
  What an iteration in the state Speech appends, in the arithmetic of the code, and over a
  run of voice verdicts; for an elapsed time that is not negative the count is the plain
  quotient.
\<close>

lemma speech_tick_appends_capped_tail:
  assumes "in_speech s"
  shows "tick hdr params n s t =
           end_segment hdr t (fst (fetch_verdict params n t))
             (s\<lparr>vad_calls := vad_calls s @ snd (fetch_verdict params n t),
                pcmf32_segment := pcmf32_segment s
                  @ last_samples (capped_count hdr t) (pcmf32_buffer t)\<rparr>)
         \<and> length (last_samples (capped_count hdr t) (pcmf32_buffer t)) = capped_count hdr t
         \<and> capped_count hdr t
             = min (to_size_t (c_div (elapsed_time_ms t * int (WHISPER_SAMPLE_RATE hdr)) 1000))
                   (length (pcmf32_buffer t))
         \<and> (0 \<le> elapsed_time_ms t
               \<and> elapsed_time_ms t * int (WHISPER_SAMPLE_RATE hdr) div 1000 < 2 ^ 64 \<longrightarrow>
             capped_count hdr t
               = min (nat (elapsed_time_ms t * int (WHISPER_SAMPLE_RATE hdr) div 1000))
                     (length (pcmf32_buffer t)))
         \<and> ((\<forall>u \<in> set ts. fst (fetch_verdict params n u)) \<longrightarrow>
               in_speech (main_loop hdr params n s ts)
               \<and> pcmf32_segment (main_loop hdr params n s ts) =
                   pcmf32_segment s
                   @ concat (map (\<lambda>u. last_samples (capped_count hdr u) (pcmf32_buffer u)) ts)
               \<and> length (pcmf32_segment (main_loop hdr params n s ts)) =
                   length (pcmf32_segment s) + sum_list (map (capped_count hdr) ts))"
proof -
  have a: "tick hdr params n s t =
           end_segment hdr t (fst (fetch_verdict params n t))
             (s\<lparr>vad_calls := vad_calls s @ snd (fetch_verdict params n t),
                pcmf32_segment := pcmf32_segment s
                  @ last_samples (capped_count hdr t) (pcmf32_buffer t)\<rparr>)"
    using assms by (simp add: tick_step step_in_speech)
  have b: "length (last_samples (capped_count hdr t) (pcmf32_buffer t)) = capped_count hdr t"
    by (simp add: length_last_samples capped_count_le)
  have c: "capped_count hdr t
             = min (to_size_t (c_div (elapsed_time_ms t * int (WHISPER_SAMPLE_RATE hdr)) 1000))
                   (length (pcmf32_buffer t))"
    by (simp add: capped_count_def new_samples_of_def)
  have d: "0 \<le> elapsed_time_ms t
               \<and> elapsed_time_ms t * int (WHISPER_SAMPLE_RATE hdr) div 1000 < 2 ^ 64 \<longrightarrow>
             capped_count hdr t
               = min (nat (elapsed_time_ms t * int (WHISPER_SAMPLE_RATE hdr) div 1000))
                     (length (pcmf32_buffer t))"
    by (simp add: capped_count_def new_samples_of_nonneg)
  have e: "(\<forall>u \<in> set ts. fst (fetch_verdict params n u)) \<longrightarrow>
               in_speech (main_loop hdr params n s ts)
               \<and> pcmf32_segment (main_loop hdr params n s ts) =
                   pcmf32_segment s
                   @ concat (map (\<lambda>u. last_samples (capped_count hdr u) (pcmf32_buffer u)) ts)
               \<and> length (pcmf32_segment (main_loop hdr params n s ts)) =
                   length (pcmf32_segment s) + sum_list (map (capped_count hdr) ts)"
  proof
    assume h: "\<forall>u \<in> set ts. fst (fetch_verdict params n u)"
    note r = voice_run_from_speech [OF assms h, of hdr]
    have l: "length (pcmf32_segment (main_loop hdr params n s ts)) =
        length (pcmf32_segment s) + sum_list (map (capped_count hdr) ts)"
      using r by (simp add: length_concat_tails)
    show "in_speech (main_loop hdr params n s ts)
               \<and> pcmf32_segment (main_loop hdr params n s ts) =
                   pcmf32_segment s
                   @ concat (map (\<lambda>u. last_samples (capped_count hdr u) (pcmf32_buffer u)) ts)
               \<and> length (pcmf32_segment (main_loop hdr params n s ts)) =
                   length (pcmf32_segment s) + sum_list (map (capped_count hdr) ts)"
      using r l by blast
  qed
  show ?thesis using a b c d e by blast
qed

subsection \<open>Facts about the parser and startup\<close>

lemma parse_arg_exit:
  "parse_arg lib a nx p = Exit_called c \<Longrightarrow> c = 0 \<or> c = 1"
  by (auto simp: parse_arg_def int_operand_def float_operand_def string_operand_def
      split: if_splits option.splits)

lemma params_loop_exit:
  "params_loop lib args p = Exit_called c \<Longrightarrow> c = 0 \<or> c = 1"
proof (induction lib args p rule: params_loop.induct)
  case (1 lib params)
  then show ?case by simp
next
  case (2 lib arg rest params)
  show ?case
  proof (cases "parse_arg lib arg (case rest of [] \<Rightarrow> None | v # _ \<Rightarrow> Some v) params")
    case (Done r)
    obtain p' adv where r: "r = (p', adv)" by (cases r)
    show ?thesis
      using "2.IH" [OF Done r [symmetric]] "2.prems" Done r by simp
  next
    case (Exit_called c')
    then show ?thesis using "2.prems" parse_arg_exit [OF Exit_called] by simp
  next
    case Threw
    then show ?thesis using "2.prems" by simp
  next
    case Null_argument
    then show ?thesis using "2.prems" by simp
  qed
qed

lemma whisper_params_parse_exit:
  "whisper_params_parse lib argv p = Exit_called c \<Longrightarrow> c = 0 \<or> c = 1"
  by (auto simp: whisper_params_parse_def Let_def split: outcome.splits if_splits
      dest: params_loop_exit)

lemma parsed_params_clamped:
  assumes "whisper_params_parse lib argv p0 = Done (ok, p)"
  shows "1000 \<le> audio_buffer_ms p \<and> 500 \<le> silence_ms p \<and> 100 \<le> min_step_ms p
         \<and> 0 \<le> whisper_log_level p \<and> whisper_log_level p \<le> 5"
  using assms
  by (auto simp: whisper_params_parse_def Let_def split: outcome.splits if_splits)

lemma parsed_language:
  assumes "whisper_params_parse lib argv p0 = Done (ok, p)"
  shows "ok \<longleftrightarrow> language p = ''auto'' \<or> whisper_lang_id lib (language p) \<noteq> - 1"
  using assms
  by (auto simp: whisper_params_parse_def Let_def split: outcome.splits if_splits)

lemma n_samples_of_nonneg:
  "0 \<le> ms \<Longrightarrow> n_samples_of hdr ms = Some k \<Longrightarrow> 0 \<le> k"
  by (auto simp: n_samples_of_def int32_mul_def c_div_nonneg pos_imp_zdiv_nonneg_iff
      split: if_splits)

lemma loop_buffers_of_parsed:
  assumes "whisper_params_parse lib argv p0 = Done (ok, p)"
  shows "loop_buffers hdr p \<noteq> Inl Terminated"
    and "loop_buffers hdr p \<noteq> Inl (Exit_code c)"
proof -
  have a: "0 \<le> audio_buffer_ms p" "0 \<le> silence_ms p"
    using parsed_params_clamped [OF assms] by simp_all
  show "loop_buffers hdr p \<noteq> Inl Terminated"
    using n_samples_of_nonneg [OF a(1), of hdr] n_samples_of_nonneg [OF a(2), of hdr]
    by (auto simp: loop_buffers_def split: option.splits)
  show "loop_buffers hdr p \<noteq> Inl (Exit_code c)"
    by (auto simp: loop_buffers_def split: option.splits)
qed

lemma loop_buffers_cases:
  assumes "whisper_params_parse lib argv p0 = Done (ok, p)"
  shows "loop_buffers hdr p = Inl Undefined \<or> (\<exists>n. loop_buffers hdr p = Inr n)"
proof (cases "loop_buffers hdr p")
  case (Inl e)
  then show ?thesis
    using loop_buffers_of_parsed [OF assms, of hdr] by (cases e) auto
next
  case (Inr n)
  then show ?thesis by simp
qed

lemma main_exit_codes:
  assumes "r = whisper_params_parse lib argv (default_params (hardware_concurrency lib))"
    and "m = main lib hdr env argv ticks"
  shows "(fst m = Exit_code 0 \<longleftrightarrow>
            r = Exit_called 0
            \<or> (\<exists>p. r = Done (True, p) \<and> (list_devices p
                  \<or> (whisper_init_ok env p \<and> vad_init_ok env p
                      \<and> (\<exists>n. loop_buffers hdr p = Inr n) \<and> audio_init_ok env p))))
         \<and> (fst m = Exit_code 1 \<longleftrightarrow>
            r = Exit_called 1
            \<or> (\<exists>p. r = Done (False, p))
            \<or> (\<exists>p. r = Done (True, p) \<and> \<not> list_devices p
                  \<and> whisper_init_ok env p \<and> vad_init_ok env p
                  \<and> (\<exists>n. loop_buffers hdr p = Inr n) \<and> \<not> audio_init_ok env p))
         \<and> (fst m = Exit_code 2 \<longleftrightarrow>
            (\<exists>p. r = Done (True, p) \<and> \<not> list_devices p \<and> \<not> whisper_init_ok env p))
         \<and> (fst m = Exit_code 3 \<longleftrightarrow>
            (\<exists>p. r = Done (True, p) \<and> \<not> list_devices p
                  \<and> whisper_init_ok env p \<and> \<not> vad_init_ok env p))
         \<and> (fst m = Terminated \<longleftrightarrow> r = Threw)
         \<and> (fst m = Undefined \<longleftrightarrow>
            r = Null_argument
            \<or> (\<exists>p. r = Done (True, p) \<and> \<not> list_devices p
                  \<and> whisper_init_ok env p \<and> vad_init_ok env p
                  \<and> loop_buffers hdr p = Inl Undefined))"
proof (cases r)
  case (Done x)
  obtain ok p where x: "x = (ok, p)" by (cases x)
  have r: "whisper_params_parse lib argv (default_params (hardware_concurrency lib)) = Done (ok, p)"
    using assms(1) Done x by simp
  show ?thesis
    using loop_buffers_cases [OF r, of hdr]
    unfolding assms(2) main_def r Done x by (auto split: sum.splits)
next
  case (Exit_called c)
  have c: "c = 0 \<or> c = 1"
    using whisper_params_parse_exit [of lib argv _ c] assms(1) Exit_called by simp
  have r: "whisper_params_parse lib argv (default_params (hardware_concurrency lib)) = Exit_called c"
    using assms(1) Exit_called by simp
  show ?thesis
    unfolding assms(2) main_def r Exit_called using c by auto
next
  case Threw
  have r: "whisper_params_parse lib argv (default_params (hardware_concurrency lib)) = Threw"
    using assms(1) Threw by simp
  show ?thesis
    unfolding assms(2) main_def r Threw by auto
next
  case Null_argument
  have r: "whisper_params_parse lib argv (default_params (hardware_concurrency lib)) = Null_argument"
    using assms(1) Null_argument by simp
  show ?thesis
    unfolding assms(2) main_def r Null_argument by auto
qed

subsection \<open>Facts about the examples\<close>

lemma voice_tick_verdict:
  "fetch_verdict (default_params hc) 8000 voice_tick = (True, [replicate 8000 0])"
  by (simp add: fetch_verdict_def voice_tick_def example_tick_def last_samples_def
      detect_voice_activity_def vad_says_def default_params_def max_element_def)

lemma silence_tick_verdict:
  "fetch_verdict (default_params hc) 8000 silence_tick = (False, [replicate 8000 0])"
  by (simp add: fetch_verdict_def silence_tick_def example_tick_def last_samples_def
      detect_voice_activity_def vad_says_def default_params_def max_element_def)

lemma capped_count_voice_tick: "capped_count example_headers voice_tick = 8000"
  by (simp add: capped_count_def new_samples_of_def to_size_t_def c_div_def
      example_headers_def voice_tick_def example_tick_def)


lemma capped_count_empty_window_tick: "capped_count example_headers empty_window_tick = 0"
  by (simp add: capped_count_def empty_window_tick_def)

lemma trim_spec_hello: "trim_spec '' hello world '' = ''hello world''"
  by (simp add: trim_spec_def is_space_def)

lemma transcribe_hello:
  "seg \<noteq> [] \<Longrightarrow>
   transcribe_audio_segment example_headers (whisper_says '' hello world '') seg
     = (''hello world'', [seg])"
  by (simp add: transcribe_audio_segment_def whisper_says_def full_text_def
      example_headers_def trim_spec_hello)


lemma stoi_abc: "stoi_model ''abc'' = None"
  by (simp add: stoi_model_def is_space_def is_digit_def Let_def)

lemma stoi_8: "stoi_model ''8'' = Some 8"
  by (simp add: stoi_model_def is_space_def is_digit_def decimal_def Let_def)

lemma stoi_m12: "stoi_model '' -12x'' = Some (- 12)"
  by (simp add: stoi_model_def is_space_def is_digit_def decimal_def Let_def)

lemma parse_no_arguments:
  "whisper_params_parse example_library [''transcribe''] (default_params 8)
     = Done (True, default_params 8)"
  by (simp add: whisper_params_parse_def example_library_def example_lang_id_def default_params_def)

lemma parse_unknown_argument:
  "whisper_params_parse example_library [''transcribe'', ''--fast''] (default_params 8)
     = Exit_called 1"
  by (simp add: whisper_params_parse_def parse_arg_def)

lemma parse_unknown_language:
  "whisper_params_parse example_library [''transcribe'', ''-l'', ''xx''] (default_params 8)
     = Done (False, (default_params 8)\<lparr>language := ''xx''\<rparr>)"
  by (simp add: whisper_params_parse_def parse_arg_def string_operand_def
      example_library_def example_lang_id_def default_params_def)

lemma parse_malformed_number:
  "whisper_params_parse example_library [''transcribe'', ''-t'', ''abc''] (default_params 8)
     = Threw"
  by (simp add: whisper_params_parse_def parse_arg_def int_operand_def
      example_library_def stoi_abc)

lemma example_hardware_concurrency: "hardware_concurrency example_library = 8"
  by (simp add: example_library_def)

lemma capped_count_negative_elapsed:
  "capped_count example_headers (voice_tick\<lparr>elapsed_time_ms := - 1\<rparr>) = 32000"
  by (simp add: capped_count_def new_samples_of_def to_size_t_def c_div_def
      example_headers_def voice_tick_def example_tick_def)

lemma clock_back_tick_verdict:
  "fetch_verdict (default_params hc) 8000 clock_back_tick = (True, [replicate 8000 0])"
  by (simp add: fetch_verdict_def clock_back_tick_def voice_tick_def example_tick_def
      last_samples_def detect_voice_activity_def vad_says_def default_params_def max_element_def)


lemma loop_buffers_default:
  "loop_buffers example_headers (default_params hc) = Inr 8000"
  by (simp add: loop_buffers_def n_samples_of_def int32_mul_def c_div_def
      example_headers_def default_params_def)

lemma silence_overflow_is_undefined:
  "loop_buffers example_headers ((default_params 8)\<lparr>silence_ms := 134217728\<rparr>) = Inl Undefined"
  by (simp add: loop_buffers_def n_samples_of_def int32_mul_def c_div_def
      example_headers_def default_params_def)

section \<open>The claims\<close>

text \<open>
  C1, as the code has it. On an iteration whose window holds fewer than \<open>n_samples_vad\<close>
  samples the detector is not invoked and the verdict is silence. In the state Silence the
  iteration changes nothing: state, segment and logs are as before, and whisper is not
  invoked. In the state Speech the iteration is the one of a silence verdict: the new tail
  of the window is appended, the segment is handed to \<open>transcribe_audio_segment\<close>, the
  buffer is cleared and the state becomes Silence.
\<close>

theorem short_window_tick:
  assumes "length (pcmf32_buffer t) < n"
  shows "fetch_verdict params n t = (False, [])
         \<and> vad_calls (tick hdr params n s t) = vad_calls s
         \<and> (\<not> in_speech s \<longrightarrow> tick hdr params n s t = s)
         \<and> (in_speech s \<longrightarrow> tick hdr params n s t = step hdr n t False s
               \<and> \<not> in_speech (tick hdr params n s t)
               \<and> pcmf32_segment (tick hdr params n s t) = []
               \<and> whisper_calls (tick hdr params n s t) = whisper_calls s @
                   snd (transcribe_audio_segment hdr (ctx_now t)
                     (pcmf32_segment s @ last_samples (capped_count hdr t) (pcmf32_buffer t))))"
proof -
  have v: "fetch_verdict params n t = (False, [])"
    using assms by (rule fetch_verdict_short)
  have k: "tick hdr params n s t = step hdr n t False s"
    by (simp add: tick_step v)
  have a: "\<not> in_speech s \<Longrightarrow> tick hdr params n s t = s"
    by (simp add: k step_silence_in_silence)
  have b: "in_speech s \<Longrightarrow> whisper_calls (tick hdr params n s t) = whisper_calls s @
                   snd (transcribe_audio_segment hdr (ctx_now t)
                     (pcmf32_segment s @ last_samples (capped_count hdr t) (pcmf32_buffer t)))"
    using tick_silence_in_speech [of s params n t hdr] by (simp add: v accumulate_speech)
  have c: "in_speech s \<Longrightarrow> pcmf32_segment (tick hdr params n s t) = []"
    using tick_silence_in_speech [of s params n t hdr] by (simp add: v)
  show ?thesis
    using v k a b c by (simp add: step_vad_calls step_silence_leaves_speech)
qed

text \<open>
  The claim as stated (the state is held on every such iteration) fails in the state
  Speech: after a first voice verdict, an iteration with an empty window ends the segment
  and transcribes it.
\<close>

theorem short_window_tick_counterexample:
  "length (pcmf32_buffer empty_window_tick) < 8000
   \<and> in_speech speech_session
   \<and> tick example_headers (default_params 8) 8000 speech_session empty_window_tick =
       \<lparr>in_speech = False, pcmf32_segment = [], vad_calls = [replicate 8000 0],
        whisper_calls = [replicate 8000 0],
        stdout = [Printf (''hello world'' @ [CHR 0x0A]), Fflush]\<rparr>"
proof -
  have v: "fetch_verdict (default_params 8) 8000 empty_window_tick = (False, [])"
    by (simp add: fetch_verdict_def empty_window_tick_def)
  have sp: "in_speech speech_session" by (simp add: speech_session_def)
  have acc: "pcmf32_segment (accumulate example_headers empty_window_tick speech_session)
      = replicate 8000 0"
    by (simp add: accumulate_speech sp capped_count_empty_window_tick) (simp add: speech_session_def)
  have tr: "transcribe_audio_segment example_headers (ctx_now empty_window_tick) (replicate 8000 0)
      = (''hello world'', [replicate 8000 0])"
    by (simp add: empty_window_tick_def transcribe_hello)
  have "tick example_headers (default_params 8) 8000 speech_session empty_window_tick =
       \<lparr>in_speech = False, pcmf32_segment = [], vad_calls = [replicate 8000 0],
        whisper_calls = [replicate 8000 0],
        stdout = [Printf (''hello world'' @ [CHR 0x0A]), Fflush]\<rparr>"
    using sp
    by (simp add: tick_silence_in_speech v acc tr emitted_def) (simp add: speech_session_def)
  then show ?thesis
    using sp by (simp add: empty_window_tick_def)
qed

theorem short_window_tick_witness:
  "length (pcmf32_buffer empty_window_tick) < 8000
   \<and> fetch_verdict (default_params 8) 8000 empty_window_tick = (False, [])
   \<and> tick example_headers (default_params 8) 8000 initial_session empty_window_tick
       = initial_session
   \<and> tick example_headers (default_params 8) 8000 speech_session empty_window_tick
       = step example_headers 8000 empty_window_tick False speech_session"
proof -
  have h: "length (pcmf32_buffer empty_window_tick) < 8000"
    by (simp add: empty_window_tick_def)
  have a: "\<not> in_speech initial_session" by (simp add: initial_session_def)
  have b: "in_speech speech_session" by (simp add: speech_session_def)
  show ?thesis
    using h a b
      short_window_tick [OF h, of "default_params 8" example_headers initial_session]
      short_window_tick [OF h, of "default_params 8" example_headers speech_session]
    by blast
qed

text \<open>
  C2. The claim: on every iteration in the state Speech the segment grows by the last
  \<open>min(elapsed_time_ms * WHISPER_SAMPLE_RATE / 1000, window length)\<close> samples of the window,
  and never by more. The code does so whenever the elapsed time is not negative
  (\<open>speech_tick_appends_capped_tail\<close>). It stores the quotient in a \<open>size_t\<close>, though,
  and the elapsed time is a signed difference of two readings of a clock that may be set
  back: at \<open>-1\<close> ms the quotient \<open>-16\<close> becomes \<open>2^64 - 16\<close>, the cap is the length of
  the window, and all of its 32000 samples are appended to the segment, where the count of
  the claim allows none.
\<close>

theorem negative_elapsed_appends_whole_window:
  "in_speech speech_session
   \<and> elapsed_time_ms clock_back_tick = - 1
   \<and> length (pcmf32_buffer clock_back_tick) = 32000
   \<and> c_div (elapsed_time_ms clock_back_tick * int (WHISPER_SAMPLE_RATE example_headers)) 1000
       = - 16
   \<and> new_samples_of example_headers (elapsed_time_ms clock_back_tick) = 2 ^ 64 - 16
   \<and> pcmf32_segment (tick example_headers (default_params 8) 8000 speech_session clock_back_tick)
       = pcmf32_segment speech_session @ pcmf32_buffer clock_back_tick
   \<and> length (pcmf32_segment
         (tick example_headers (default_params 8) 8000 speech_session clock_back_tick))
       = length (pcmf32_segment speech_session) + 32000"
proof -
  have sp: "in_speech speech_session" by (simp add: speech_session_def)
  have e: "elapsed_time_ms clock_back_tick = - 1"
    "length (pcmf32_buffer clock_back_tick) = 32000"
    by (simp_all add: clock_back_tick_def voice_tick_def example_tick_def)
  have d: "c_div (elapsed_time_ms clock_back_tick * int (WHISPER_SAMPLE_RATE example_headers))
      1000 = - 16"
    by (simp add: e c_div_def example_headers_def)
  have n: "new_samples_of example_headers (elapsed_time_ms clock_back_tick) = 2 ^ 64 - 16"
    by (simp add: new_samples_of_def to_size_t_def c_div_def e example_headers_def)
  have c: "capped_count example_headers clock_back_tick = 32000"
    using n by (simp add: capped_count_def e)
  have t: "pcmf32_segment (tick example_headers (default_params 8) 8000 speech_session
      clock_back_tick) = pcmf32_segment speech_session @ pcmf32_buffer clock_back_tick"
    using sp by (simp add: tick_voice_in_speech clock_back_tick_verdict c last_samples_def e)
  show ?thesis
    using sp e d n t by simp
qed

text \<open>
  C3. On an iteration that begins in the state Silence and gets a voice verdict, the state
  becomes Speech and the segment buffer afterwards is exactly the last \<open>n_samples_vad\<close>
  samples of the window of that iteration, whatever the buffer held before.
\<close>

theorem silence_to_speech_seeds_lookback:
  assumes "\<not> in_speech s" and "fst (fetch_verdict params n t)"
  shows "in_speech (tick hdr params n s t)
         \<and> pcmf32_segment (tick hdr params n s t) = last_samples n (pcmf32_buffer t)
         \<and> pcmf32_segment (tick hdr params n s t)
             = drop (length (pcmf32_buffer t) - n) (pcmf32_buffer t)
         \<and> length (pcmf32_segment (tick hdr params n s t)) = n
         \<and> whisper_calls (tick hdr params n s t) = whisper_calls s
         \<and> stdout (tick hdr params n s t) = stdout s"
  using assms fetch_verdict_voice_length [OF assms(2)]
  by (simp add: tick_voice_in_silence length_last_samples) (simp add: last_samples_def)

theorem silence_to_speech_seeds_lookback_witness:
  "\<not> in_speech initial_session
   \<and> fst (fetch_verdict (default_params 8) 8000 voice_tick)
   \<and> pcmf32_segment (tick example_headers (default_params 8) 8000 initial_session voice_tick)
       = last_samples 8000 (pcmf32_buffer voice_tick)
   \<and> length (pcmf32_segment (tick example_headers (default_params 8) 8000 initial_session voice_tick))
       = 8000"
proof -
  have a: "\<not> in_speech initial_session" by (simp add: initial_session_def)
  have v: "fst (fetch_verdict (default_params 8) 8000 voice_tick)"
    by (simp add: voice_tick_verdict)
  show ?thesis
    using a v silence_to_speech_seeds_lookback [OF a v, of example_headers] by blast
qed

text \<open>
  C4. The VAD decision reduces the probabilities of the detector to their maximum and
  compares it with the threshold by strict greater-than: when the detector succeeds with
  \<open>n_probs > 0\<close> probabilities at \<open>probs\<close>, the verdict is
  \<open>Max {probs[0], ..., probs[n_probs - 1]} > threshold\<close>. The witness is the instance of the
  spec: for the probabilities \<open>[0.4, 0.6]\<close> the verdict is true at threshold \<open>0.5\<close> and
  false at threshold \<open>0.6\<close>.
\<close>

theorem vad_decision_is_strict_max:
  assumes "w \<noteq> []" and "detect_speech (vad w)" and "0 < n_probs (vad w)"
    and "probs (vad w) = Some p"
  shows "detect_voice_activity (Some vad) w th =
           (Max (p ` {..<nat (n_probs (vad w))}) > th, [w])"
  using assms max_element_is_Max [of "nat (n_probs (vad w))" p]
  by (simp add: detect_voice_activity_def Let_def)

theorem vad_decision_is_strict_max_witness:
  "fst (detect_voice_activity (Some (vad_says [0.4, 0.6])) [0, 0] 0.5) = True
   \<and> fst (detect_voice_activity (Some (vad_says [0.4, 0.6])) [0, 0] 0.6) = False"
  using vad_decision_is_strict_max [of "[0, 0]" "vad_says [0.4, 0.6]" "(!) [0.4, 0.6]" "0.5"]
    vad_decision_is_strict_max [of "[0, 0]" "vad_says [0.4, 0.6]" "(!) [0.4, 0.6]" "0.6"]
  by (simp add: vad_says_def lessThan_Suc numeral_2_eq_2)



text \<open>
  C6. For every call of the VAD decision with a zero-length window, it returns false and
  the detector is not invoked: the list of windows handed to the detector is empty.
\<close>

theorem empty_window_is_silence_without_detector:
  "detect_voice_activity vctx [] th = (False, [])"
  by (simp add: detect_voice_activity_def)

theorem empty_window_is_silence_without_detector_witness:
  "detect_voice_activity (Some (vad_says [0.9])) [] 0.5 = (False, [])"
  using empty_window_is_silence_without_detector [of "Some (vad_says [0.9])" "0.5"] by simp

text \<open>
  C7. When the detector reports failure (\<open>whisper_vad_detect_speech\<close> returns false, or
  there are no probabilities: \<open>n_probs \<le> 0\<close> or a null \<open>probs\<close>), the VAD decision
  returns false. On an iteration of the loop the failure is the verdict "no speech" and
  nothing else: the iteration is the one of a silence verdict, it ends in the state
  Silence, and the loop goes on with the next iteration.
\<close>

theorem detector_failure_is_no_speech:
  assumes "\<not> detect_speech (vad w) \<or> n_probs (vad w) \<le> 0 \<or> probs (vad w) = None"
    and "vad = vad_ctx_now t" and "w = last_samples n (pcmf32_buffer t)"
  shows "fst (detect_voice_activity (Some vad) w th) = False
         \<and> fst (fetch_verdict params n t) = False
         \<and> tick hdr params n s t =
             step hdr n t False (s\<lparr>vad_calls := vad_calls s @ snd (fetch_verdict params n t)\<rparr>)
         \<and> in_speech (tick hdr params n s t) = False
         \<and> main_loop hdr params n s (t # ts) =
             main_loop hdr params n
               (step hdr n t False (s\<lparr>vad_calls := vad_calls s @ snd (fetch_verdict params n t)\<rparr>)) ts"
proof -
  have d: "fst (detect_voice_activity (Some vad) w th') = False" for th'
    using assms(1) by (auto simp: detect_voice_activity_def Let_def)
  have v: "fst (fetch_verdict params n t) = False"
    using d [of "vad_thold params"] assms(2,3) by (simp add: fetch_verdict_def)
  have k: "tick hdr params n s t =
      step hdr n t False (s\<lparr>vad_calls := vad_calls s @ snd (fetch_verdict params n t)\<rparr>)"
    using v by (simp add: tick_step)
  show ?thesis
    using d v k by (simp add: step_silence_leaves_speech)
qed

theorem detector_failure_is_no_speech_witness:
  "fst (detect_voice_activity (Some vad_fails) (replicate 8000 0) 0.5) = False
   \<and> in_speech (tick example_headers (default_params 8) 8000
        \<lparr>in_speech = True, pcmf32_segment = replicate 8000 0, vad_calls = [],
         whisper_calls = [], stdout = []\<rparr>
        (example_tick 0 vad_fails (whisper_says ''hello''))) = False"
proof -
  let ?t = "example_tick 0 vad_fails (whisper_says ''hello'')"
  have h1: "\<not> detect_speech (vad_fails w) \<or> n_probs (vad_fails w) \<le> 0
      \<or> probs (vad_fails w) = None" for w
    by (simp add: vad_fails_def)
  have h2: "vad_fails = vad_ctx_now ?t"
    by (simp add: example_tick_def)
  have h3: "replicate 8000 0 = last_samples 8000 (pcmf32_buffer ?t)"
    by (simp add: example_tick_def last_samples_def)
  show ?thesis
    using detector_failure_is_no_speech [OF h1 h2 h3, of "0.5" "default_params 8"
        example_headers _ "[]"]
    by blast
qed



text \<open>
  C9. The claim: exit code 1 on an argument-parsing or generic initialisation failure, 2
  when whisper fails to initialise, 3 when the VAD does, 0 on a clean exit. The code
  keeps to it where it reports a failure itself (\<open>main_exit_codes\<close>): an unknown
  argument and an unknown language end in exit code 1. A numeric option whose operand is
  not a number does not: \<open>std::stoi\<close> throws, nothing catches the exception, and for
  \<open>transcribe -t abc\<close> the process is terminated before any initialisation, with no exit
  code of its own.
\<close>

theorem malformed_number_terminates:
  "stoi example_library ''abc'' = None
   \<and> whisper_params_parse example_library [''transcribe'', ''-t'', ''abc'']
        (default_params (hardware_concurrency example_library)) = Threw
   \<and> main example_library example_headers (example_startup True True True)
        [''transcribe'', ''-t'', ''abc''] [] = (Terminated, [], initial_session)
   \<and> fst (main example_library example_headers (example_startup True True True)
        [''transcribe'', ''--fast''] []) = Exit_code 1
   \<and> fst (main example_library example_headers (example_startup True True True)
        [''transcribe'', ''-l'', ''xx''] []) = Exit_code 1"
proof -
  have s: "stoi example_library ''abc'' = None"
    by (simp add: example_library_def stoi_abc)
  have p: "whisper_params_parse example_library [''transcribe'', ''-t'', ''abc'']
        (default_params (hardware_concurrency example_library)) = Threw"
    by (simp only: example_hardware_concurrency parse_malformed_number)
  have m: "main example_library example_headers (example_startup True True True)
        [''transcribe'', ''-t'', ''abc''] [] = (Terminated, [], initial_session)"
    by (simp add: main_def p)
  have u: "fst (main example_library example_headers (example_startup True True True)
        [''transcribe'', ''--fast''] []) = Exit_code 1"
    by (simp add: main_def example_hardware_concurrency parse_unknown_argument)
  have l: "fst (main example_library example_headers (example_startup True True True)
        [''transcribe'', ''-l'', ''xx''] []) = Exit_code 1"
    by (simp add: main_def example_hardware_concurrency parse_unknown_language)
  show ?thesis using s p m u l by simp
qed

text \<open>
  C10. "In the state Silence the segment buffer is empty" holds for the variables as
  \<open>main\<close> initialises them, is preserved by every iteration, and so holds after every run
  of the loop. An iteration that stays in Silence leaves the buffer as it is, and one that
  goes from Speech to Silence leaves it empty.
\<close>

theorem silence_invariant:
  "silence_has_empty_segment initial_session
   \<and> (silence_has_empty_segment s \<longrightarrow> silence_has_empty_segment (tick hdr params n s t))
   \<and> silence_has_empty_segment (main_loop hdr params n initial_session ts)
   \<and> (\<not> in_speech s \<and> \<not> in_speech (tick hdr params n s t) \<longrightarrow>
        pcmf32_segment (tick hdr params n s t) = pcmf32_segment s)
   \<and> (in_speech s \<and> \<not> in_speech (tick hdr params n s t) \<longrightarrow>
        pcmf32_segment (tick hdr params n s t) = [])"
proof -
  have i: "silence_has_empty_segment initial_session"
    by (simp add: silence_has_empty_segment_def initial_session_def)
  show ?thesis
    using i main_loop_keeps_invariant [OF i, of hdr params n ts]
      tick_keeps_invariant [of s hdr params n t]
      tick_segment_in_silence [of s hdr params n t]
      tick_clears_on_end [of s hdr params n t]
    by blast
qed

theorem silence_invariant_witness:
  "silence_has_empty_segment speech_session
   \<and> silence_has_empty_segment
        (tick example_headers (default_params 8) 8000 speech_session silence_tick)
   \<and> in_speech speech_session
   \<and> \<not> in_speech (tick example_headers (default_params 8) 8000 speech_session silence_tick)
   \<and> pcmf32_segment (tick example_headers (default_params 8) 8000 speech_session silence_tick) = []
   \<and> \<not> in_speech initial_session
   \<and> \<not> in_speech (tick example_headers (default_params 8) 8000 initial_session silence_tick)
   \<and> pcmf32_segment (tick example_headers (default_params 8) 8000 initial_session silence_tick)
       = pcmf32_segment initial_session"
proof -
  have a: "silence_has_empty_segment speech_session"
    by (simp add: silence_has_empty_segment_def speech_session_def)
  have b: "in_speech speech_session" by (simp add: speech_session_def)
  have c: "\<not> in_speech (tick example_headers (default_params 8) 8000 speech_session silence_tick)"
    using b by (simp add: tick_silence_in_speech silence_tick_verdict)
  have d: "\<not> in_speech initial_session" by (simp add: initial_session_def)
  have e: "\<not> in_speech (tick example_headers (default_params 8) 8000 initial_session silence_tick)"
    using d by (simp add: tick_silence_in_silence silence_tick_verdict)
  show ?thesis
    using a b c d e
      silence_invariant [of speech_session example_headers "default_params 8" 8000 silence_tick "[]"]
      silence_invariant [of initial_session example_headers "default_params 8" 8000 silence_tick "[]"]
    by blast
qed

end
